theory Spec2Isabelle
  imports Main
begin

section \<open>Data model\<close>

text \<open>
  The booking endpoints of the API package (the file with \<open>HandleGetBooking\<close>,
  \<open>HandleAcceptPetition\<close>, \<open>HandleDenyPetition\<close>, \<open>HandleCancelRequest\<close>,
  \<open>HandleReturnBooking\<close> and \<open>HandleRateBooking\<close>) are embedded as pure functions.
  A handler of type \<open>func (a *API) H(r *Request) (interface{}, error)\<close> becomes a
  function of the database services \<open>a.database\<close>, the request and the state of the
  database; it returns the pair of its Go result (an error on the left, the response
  value on the right) and the state of the database after the call.
\<close>

type_synonym ObjectID = "nat list"
  \<comment> \<open>\<open>primitive.ObjectID\<close>, a \<open>[12]byte\<close>: the list of its bytes\<close>

type_synonym Time = int
  \<comment> \<open>\<open>time.Time\<close> as an instant: nanoseconds since the Unix epoch\<close>

datatype BookingStatus =
    BookingStatusPending
  | BookingStatusAccepted
  | BookingStatusRejected
  | BookingStatusCancelled
  | BookingStatusReturned

text \<open>\<open>db.User\<close>: the handlers read \<open>user.ID\<close> only; the user is looked up by e-mail.\<close>

record User =
  ID :: ObjectID
  Email :: string

text \<open>\<open>db.Booking\<close>, with the fields \<open>convertBookingToResponse\<close> and the handlers read.\<close>

record Booking =
  ID :: ObjectID
  ToolID :: string
  FromUserID :: ObjectID
  ToUserID :: ObjectID
  StartDate :: Time
  EndDate :: Time
  Contact :: string
  Comments :: string
  BookingStatus :: BookingStatus
  CreatedAt :: Time
  UpdatedAt :: Time

text \<open>
  \<open>BookingResponse\<close> of \<open>api/types.go\<close>. The field names carry a prefix since they
  would clash with those of \<open>Booking\<close>; \<open>string(booking.BookingStatus)\<close> is kept as
  the status itself.
\<close>

record BookingResponse =
  respID :: string
  respToolID :: string
  respFromUserID :: string
  respToUserID :: string
  respStartDate :: int
  respEndDate :: int
  respContact :: string
  respComments :: string
  respBookingStatus :: BookingStatus
  respCreatedAt :: Time
  respUpdatedAt :: Time

text \<open>\<open>RateRequest\<close>: the request body for rating a booking.\<close>

record RateRequest =
  Rating :: int
  BookingID :: string

text \<open>
  \<open>Request\<close> of \<open>api/handler.go\<close>. \<open>Context\<close> stands for the HTTP context as far as
  the handlers use it: \<open>chi.URLParam(r.Context.Request, key)\<close>, which is the empty
  string for a key the route does not bind.
\<close>

record Request =
  Data :: string
  Path :: "string list"
  Context :: "string \<Rightarrow> string"
  UserID :: string

definition URLParam :: "Request \<Rightarrow> string \<Rightarrow> string" where
  "URLParam r key = Context r key"

text \<open>The error values of the API package the booking handlers return.\<close>

datatype APIError =
    ErrUnauthorized
  | ErrUserNotFound
  | ErrInvalidRequestBodyData
  | ErrInternalServerError
  | ErrBookingNotFound
  | ErrToolNotFound
  | ErrBookingDatesConflict
  | ErrOnlyOwnerCanAccept
  | ErrOnlyOwnerCanDeny
  | ErrOnlyRequesterCanCancel
  | ErrOnlyOwnerCanReturn
  | ErrCanOnlyAcceptPending
  | ErrCanOnlyDenyPending
  | ErrCanOnlyCancelPending
  | ErrUserNotInvolved
  | ErrInvalidRating

text \<open>
  The taxonomy of the specification: a role error says that the actor is not the party
  authorised for the transition, a state error that the reservation is not in the state
  the transition requires.
\<close>

fun RoleError :: "APIError \<Rightarrow> bool" where
  "RoleError ErrOnlyOwnerCanAccept = True"
| "RoleError ErrOnlyOwnerCanDeny = True"
| "RoleError ErrOnlyRequesterCanCancel = True"
| "RoleError ErrOnlyOwnerCanReturn = True"
| "RoleError _ = False"

fun StateError :: "APIError \<Rightarrow> bool" where
  "StateError ErrCanOnlyAcceptPending = True"
| "StateError ErrCanOnlyDenyPending = True"
| "StateError ErrCanOnlyCancelPending = True"
| "StateError _ = False"

text \<open>What a handler returns as its \<open>interface{}\<close>.\<close>

datatype Response =
    NilValue
  | BookingValue BookingResponse
  | BookingList "BookingResponse list"

section \<open>Object identifiers\<close>

text \<open>
  \<open>primitive.ObjectIDFromHex\<close> of the MongoDB driver: a string of exactly 24
  hexadecimal digits (either case) decodes to the 12 bytes it writes; every other string
  is an error. \<open>Hex\<close> is the inverse direction, in lower case.
\<close>

definition fromHexChar :: "char \<Rightarrow> nat option" where
  "fromHexChar c =
     (let n = (of_char c :: nat) in
      if 48 \<le> n \<and> n \<le> 57 then Some (n - 48)
      else if 97 \<le> n \<and> n \<le> 102 then Some (n - 97 + 10)
      else if 65 \<le> n \<and> n \<le> 70 then Some (n - 65 + 10)
      else None)"

fun hexDecode :: "string \<Rightarrow> nat list option" where
  "hexDecode [] = Some []"
| "hexDecode [c] = None"
| "hexDecode (c # d # cs) =
     (case fromHexChar c of
        None \<Rightarrow> None
      | Some hi \<Rightarrow>
          (case fromHexChar d of
             None \<Rightarrow> None
           | Some lo \<Rightarrow>
               (case hexDecode cs of
                  None \<Rightarrow> None
                | Some bs \<Rightarrow> Some ((hi * 16 + lo) # bs))))"

definition ObjectIDFromHex :: "string \<Rightarrow> ObjectID option" where
  "ObjectIDFromHex s = (if length s \<noteq> 24 then None else hexDecode s)"

definition hexDigit :: "nat \<Rightarrow> char" where
  "hexDigit n = (if n < 10 then char_of (48 + n) else char_of (87 + n))"

definition Hex :: "ObjectID \<Rightarrow> string" where
  "Hex oid = concat (map (\<lambda>b. [hexDigit (b div 16), hexDigit (b mod 16)]) oid)"

definition Unix :: "Time \<Rightarrow> int" where
  "Unix t = t div 1000000000"

section \<open>The database services\<close>

text \<open>
  The handlers reach the database through \<open>a.database.UserService\<close> and
  \<open>a.database.BookingService\<close>. The package that implements these services is a
  collaborator of the handlers, so the handlers are embedded over any implementation of
  them: a record of the service functions over a state \<open>'db\<close>. A Go \<open>error\<close> of the
  database package is its message. \<open>BookingService.Get\<close> answers an error, no booking
  (\<open>nil\<close>) or a booking; \<open>BookingService.UpdateStatus\<close> answers an error or \<open>nil\<close>
  and leaves the database in a new state.
\<close>

record 'db Database =
  UserService_GetUserByEmail :: "'db \<Rightarrow> string \<Rightarrow> string + User"
  BookingService_Get :: "'db \<Rightarrow> ObjectID \<Rightarrow> string + Booking option"
  BookingService_UpdateStatus ::
    "'db \<Rightarrow> ObjectID \<Rightarrow> BookingStatus \<Rightarrow> string option \<times> 'db"

type_synonym 'db Handler = "'db Database \<Rightarrow> Request \<Rightarrow> 'db \<Rightarrow> (APIError + Response) \<times> 'db"

section \<open>The handlers\<close>

definition convertBookingToResponse :: "Booking \<Rightarrow> BookingResponse" where
  "convertBookingToResponse booking =
     \<lparr> respID = Hex (Booking.ID booking),
       respToolID = ToolID booking,
       respFromUserID = Hex (FromUserID booking),
       respToUserID = Hex (ToUserID booking),
       respStartDate = Unix (StartDate booking),
       respEndDate = Unix (EndDate booking),
       respContact = Contact booking,
       respComments = Comments booking,
       respBookingStatus = BookingStatus booking,
       respCreatedAt = CreatedAt booking,
       respUpdatedAt = UpdatedAt booking \<rparr>"

text \<open>\<open>HandleGetBooking\<close> handles GET /bookings/{bookingId}.\<close>

definition HandleGetBooking :: "'db Handler" where
  "HandleGetBooking database r db =
     (case ObjectIDFromHex (URLParam r ''bookingId'') of
        None \<Rightarrow> (Inl ErrInvalidRequestBodyData, db)
      | Some bookingID \<Rightarrow>
          (case BookingService_Get database db bookingID of
             Inl err \<Rightarrow> (Inl ErrInternalServerError, db)
           | Inr None \<Rightarrow> (Inl ErrBookingNotFound, db)
           | Inr (Some booking) \<Rightarrow> (Inr (BookingValue (convertBookingToResponse booking)), db)))"

text \<open>\<open>HandleAcceptPetition\<close> handles POST /bookings/petitions/{petitionId}/accept.\<close>

definition HandleAcceptPetition :: "'db Handler" where
  "HandleAcceptPetition database r db =
     (if UserID r = [] then (Inl ErrUnauthorized, db)
      else
        (case UserService_GetUserByEmail database db (UserID r) of
           Inl err \<Rightarrow> (Inl ErrUserNotFound, db)
         | Inr user \<Rightarrow>
             (case ObjectIDFromHex (URLParam r ''petitionId'') of
                None \<Rightarrow> (Inl ErrInvalidRequestBodyData, db)
              | Some petitionID \<Rightarrow>
                  (case BookingService_Get database db petitionID of
                     Inl err \<Rightarrow> (Inl ErrInternalServerError, db)
                   | Inr None \<Rightarrow> (Inl ErrBookingNotFound, db)
                   | Inr (Some booking) \<Rightarrow>
                       if ToUserID booking \<noteq> User.ID user then (Inl ErrOnlyOwnerCanAccept, db)
                       else if BookingStatus booking \<noteq> BookingStatusPending
                         then (Inl ErrCanOnlyAcceptPending, db)
                       else
                         (case BookingService_UpdateStatus database db petitionID
                                 BookingStatusAccepted of
                            (Some err, db') \<Rightarrow> (Inl ErrInternalServerError, db')
                          | (None, db') \<Rightarrow> (Inr NilValue, db'))))))"

text \<open>\<open>HandleDenyPetition\<close> handles POST /bookings/petitions/{petitionId}/deny.\<close>

definition HandleDenyPetition :: "'db Handler" where
  "HandleDenyPetition database r db =
     (if UserID r = [] then (Inl ErrUnauthorized, db)
      else
        (case UserService_GetUserByEmail database db (UserID r) of
           Inl err \<Rightarrow> (Inl ErrUserNotFound, db)
         | Inr user \<Rightarrow>
             (case ObjectIDFromHex (URLParam r ''petitionId'') of
                None \<Rightarrow> (Inl ErrInvalidRequestBodyData, db)
              | Some petitionID \<Rightarrow>
                  (case BookingService_Get database db petitionID of
                     Inl err \<Rightarrow> (Inl ErrInternalServerError, db)
                   | Inr None \<Rightarrow> (Inl ErrBookingNotFound, db)
                   | Inr (Some booking) \<Rightarrow>
                       if ToUserID booking \<noteq> User.ID user then (Inl ErrOnlyOwnerCanDeny, db)
                       else if BookingStatus booking \<noteq> BookingStatusPending
                         then (Inl ErrCanOnlyDenyPending, db)
                       else
                         (case BookingService_UpdateStatus database db petitionID
                                 BookingStatusRejected of
                            (Some err, db') \<Rightarrow> (Inl ErrInternalServerError, db')
                          | (None, db') \<Rightarrow> (Inr NilValue, db'))))))"

text \<open>\<open>HandleCancelRequest\<close> handles POST /bookings/request/{petitionId}/cancel.\<close>

definition HandleCancelRequest :: "'db Handler" where
  "HandleCancelRequest database r db =
     (if UserID r = [] then (Inl ErrUnauthorized, db)
      else
        (case UserService_GetUserByEmail database db (UserID r) of
           Inl err \<Rightarrow> (Inl ErrUserNotFound, db)
         | Inr user \<Rightarrow>
             (case ObjectIDFromHex (URLParam r ''petitionId'') of
                None \<Rightarrow> (Inl ErrInvalidRequestBodyData, db)
              | Some petitionID \<Rightarrow>
                  (case BookingService_Get database db petitionID of
                     Inl err \<Rightarrow> (Inl ErrInternalServerError, db)
                   | Inr None \<Rightarrow> (Inl ErrBookingNotFound, db)
                   | Inr (Some booking) \<Rightarrow>
                       if FromUserID booking \<noteq> User.ID user
                         then (Inl ErrOnlyRequesterCanCancel, db)
                       else if BookingStatus booking \<noteq> BookingStatusPending
                         then (Inl ErrCanOnlyCancelPending, db)
                       else
                         (case BookingService_UpdateStatus database db petitionID
                                 BookingStatusCancelled of
                            (Some err, db') \<Rightarrow> (Inl ErrInternalServerError, db')
                          | (None, db') \<Rightarrow> (Inr NilValue, db'))))))"

text \<open>\<open>HandleReturnBooking\<close> handles POST /bookings/{bookingId}/return.\<close>

definition HandleReturnBooking :: "'db Handler" where
  "HandleReturnBooking database r db =
     (if UserID r = [] then (Inl ErrUnauthorized, db)
      else
        (case UserService_GetUserByEmail database db (UserID r) of
           Inl err \<Rightarrow> (Inl ErrUserNotFound, db)
         | Inr user \<Rightarrow>
             (case ObjectIDFromHex (URLParam r ''bookingId'') of
                None \<Rightarrow> (Inl ErrInvalidRequestBodyData, db)
              | Some bookingID \<Rightarrow>
                  (case BookingService_Get database db bookingID of
                     Inl err \<Rightarrow> (Inl ErrInternalServerError, db)
                   | Inr None \<Rightarrow> (Inl ErrBookingNotFound, db)
                   | Inr (Some booking) \<Rightarrow>
                       if ToUserID booking \<noteq> User.ID user then (Inl ErrOnlyOwnerCanReturn, db)
                       else
                         (case BookingService_UpdateStatus database db bookingID
                                 BookingStatusReturned of
                            (Some err, db') \<Rightarrow> (Inl ErrInternalServerError, db')
                          | (None, db') \<Rightarrow> (Inr NilValue, db'))))))"

text \<open>
  \<open>HandleRateBooking\<close> handles POST /bookings/rates. \<open>json_Unmarshal\<close> stands for
  \<open>json.Unmarshal(r.Data, &rateReq)\<close>: the decoded body, or \<open>None\<close> for its error.
\<close>

definition HandleRateBooking ::
  "(string \<Rightarrow> RateRequest option) \<Rightarrow> 'db Handler" where
  "HandleRateBooking json_Unmarshal database r db =
     (if UserID r = [] then (Inl ErrUnauthorized, db)
      else
        (case UserService_GetUserByEmail database db (UserID r) of
           Inl err \<Rightarrow> (Inl ErrUserNotFound, db)
         | Inr user \<Rightarrow>
             (case json_Unmarshal (Data r) of
                None \<Rightarrow> (Inl ErrInvalidRequestBodyData, db)
              | Some rateReq \<Rightarrow>
                  (case ObjectIDFromHex (BookingID rateReq) of
                     None \<Rightarrow> (Inl ErrInvalidRequestBodyData, db)
                   | Some bookingID \<Rightarrow>
                       (case BookingService_Get database db bookingID of
                          Inl err \<Rightarrow> (Inl ErrInternalServerError, db)
                        | Inr None \<Rightarrow> (Inl ErrBookingNotFound, db)
                        | Inr (Some booking) \<Rightarrow>
                            if FromUserID booking \<noteq> User.ID user
                               \<and> ToUserID booking \<noteq> User.ID user
                              then (Inl ErrUserNotInvolved, db)
                            else if Rating rateReq < 1 \<or> 5 < Rating rateReq
                              then (Inl ErrInvalidRating, db)
                            else (Inr NilValue, db))))))"

section \<open>The persistence collaborator\<close>

text \<open>
  The database package itself (\<open>BookingService\<close> with \<open>Create\<close>, \<open>Get\<close>,
  \<open>UpdateStatus\<close> and the conflict detector, and \<open>UserService\<close>) is not among the
  files of the API package. Where a property depends on what these services do, they are
  modelled from the specification over an in-memory store: the registered users, the
  reservations in insertion order, and the reading of the clock.
\<close>

record Store =
  users :: "User list"
  bookings :: "Booking list"
  now :: Time

text \<open>
  Modelled from the spec: \<open>UserService.GetUserByEmail\<close> is missing. The handlers call
  it with the caller's identity and treat any error as "user not found"; the model looks
  the e-mail up among the registered users.
\<close>

definition GetUserByEmail :: "Store \<Rightarrow> string \<Rightarrow> string + User" where
  "GetUserByEmail s email =
     (case find (\<lambda>u. Email u = email) (users s) of
        None \<Rightarrow> Inl ''user not found''
      | Some u \<Rightarrow> Inr u)"

text \<open>
  Modelled from the spec: \<open>BookingService.Get\<close> is missing. Section 4.3,
  \<open>Get(reservationID)\<close>: a single reservation or the not-found signal.
\<close>

definition Get :: "Store \<Rightarrow> ObjectID \<Rightarrow> string + Booking option" where
  "Get s bookingID = Inr (find (\<lambda>b. Booking.ID b = bookingID) (bookings s))"

text \<open>
  Modelled from the spec: \<open>BookingService.UpdateStatus\<close> is missing. Section 4.2: on
  success, persist the new status and refresh the updated timestamp; a reservation that
  does not exist is an error. No other field and no other reservation changes.
\<close>

definition setStatus :: "ObjectID \<Rightarrow> BookingStatus \<Rightarrow> Time \<Rightarrow> Booking \<Rightarrow> Booking" where
  "setStatus bookingID status t b =
     (if Booking.ID b = bookingID then b\<lparr>BookingStatus := status, UpdatedAt := t\<rparr> else b)"

definition UpdateStatus :: "Store \<Rightarrow> ObjectID \<Rightarrow> BookingStatus \<Rightarrow> string option \<times> Store" where
  "UpdateStatus s bookingID status =
     (case find (\<lambda>b. Booking.ID b = bookingID) (bookings s) of
        None \<Rightarrow> (Some ''booking not found'', s)
      | Some b \<Rightarrow>
          (None, s\<lparr>bookings := map (setStatus bookingID status (now s)) (bookings s)\<rparr>))"

text \<open>
  Modelled from the spec: the conflict detector is missing. Section 4.1,
  \<open>hasConflict(tool, candidateStart, candidateEnd)\<close>: fetch all reservations for the
  given tool whose status is Accepted; a reservation overlaps the candidate range if
  \<open>existing.start < candidateEnd AND existing.end > candidateStart\<close>; the answer is
  true if any Accepted reservation overlaps.
\<close>

definition hasConflict :: "Store \<Rightarrow> string \<Rightarrow> Time \<Rightarrow> Time \<Rightarrow> bool" where
  "hasConflict s tool candidateStart candidateEnd =
     list_ex (\<lambda>existing. StartDate existing < candidateEnd \<and> EndDate existing > candidateStart)
       (filter (\<lambda>b. ToolID b = tool \<and> BookingStatus b = BookingStatusAccepted) (bookings s))"

text \<open>
  Modelled from the spec: \<open>BookingService.Create\<close> is missing. Section 4.2, steps of
  \<open>Create(tool, requester, owner, dateRange, contact, comment)\<close>: run the conflict
  detector against the tool and the requested range; if a conflict is found, fail with
  the dates-conflict error; otherwise persist a new reservation with status Pending,
  created and updated timestamps set to now, and return it. The identifier assigned at
  creation is supplied by the caller of the model (\<open>newID\<close>). The message of the error
  is the one \<open>HandleCreateBooking\<close> compares with.
\<close>

definition ErrBookingDatesConflict_message :: string where
  "ErrBookingDatesConflict_message = ''booking dates conflict with existing booking''"

definition Create ::
  "Store \<Rightarrow> ObjectID \<Rightarrow> string \<Rightarrow> ObjectID \<Rightarrow> ObjectID \<Rightarrow> Time \<Rightarrow> Time \<Rightarrow> string \<Rightarrow> string
     \<Rightarrow> (string + Booking) \<times> Store" where
  "Create s newID tool requester owner startDate endDate contact comment =
     (if hasConflict s tool startDate endDate then (Inl ErrBookingDatesConflict_message, s)
      else
        (let booking =
           \<lparr> Booking.ID = newID,
             ToolID = tool,
             FromUserID = requester,
             ToUserID = owner,
             StartDate = startDate,
             EndDate = endDate,
             Contact = contact,
             Comments = comment,
             BookingStatus = BookingStatusPending,
             CreatedAt = now s,
             UpdatedAt = now s \<rparr>
         in (Inr booking, s\<lparr>bookings := bookings s @ [booking]\<rparr>)))"

text \<open>The services of the store, as the handlers take them.\<close>

definition memory :: "Store Database" where
  "memory =
     \<lparr> UserService_GetUserByEmail = GetUserByEmail,
       BookingService_Get = Get,
       BookingService_UpdateStatus = UpdateStatus \<rparr>"

section \<open>A test fixture\<close>

text \<open>
  The users of the package's tests: bob owns the tool, alice requests it. Two reservations
  of tool 1 for the same two days, the first Accepted and the second Pending, as after
  the first three steps of \<open>TestBookingDateConflicts\<close>.
\<close>

definition bob :: User where
  "bob = \<lparr> User.ID = [0, 0, 0, 0, 0, 0, 0, 0, 0, 0, 0, 1], Email = ''bob@emprius.cat'' \<rparr>"

definition alice :: User where
  "alice = \<lparr> User.ID = [0, 0, 0, 0, 0, 0, 0, 0, 0, 0, 0, 2], Email = ''alice@emprius.cat'' \<rparr>"

definition booking1 :: Booking where
  "booking1 =
     \<lparr> Booking.ID = [0, 0, 0, 0, 0, 0, 0, 0, 0, 0, 0, 161],
       ToolID = ''1'',
       FromUserID = User.ID alice,
       ToUserID = User.ID bob,
       StartDate = 86400000000000,
       EndDate = 172800000000000,
       Contact = ''test1@test.com'',
       Comments = ''Test booking 1'',
       BookingStatus = BookingStatusAccepted,
       CreatedAt = 10,
       UpdatedAt = 30 \<rparr>"

definition booking2 :: Booking where
  "booking2 =
     \<lparr> Booking.ID = [0, 0, 0, 0, 0, 0, 0, 0, 0, 0, 0, 162],
       ToolID = ''1'',
       FromUserID = User.ID alice,
       ToUserID = User.ID bob,
       StartDate = 86400000000000,
       EndDate = 172800000000000,
       Contact = ''test2@test.com'',
       Comments = ''Test booking 2'',
       BookingStatus = BookingStatusPending,
       CreatedAt = 20,
       UpdatedAt = 20 \<rparr>"

definition store1 :: Store where
  "store1 = \<lparr> users = [bob, alice], bookings = [booking1, booking2], now = 40 \<rparr>"

text \<open>A request of caller \<open>who\<close> on a route that binds \<open>key\<close> to \<open>hexID\<close>.\<close>

definition request :: "string \<Rightarrow> string \<Rightarrow> string \<Rightarrow> Request" where
  "request who key hexID =
     \<lparr> Data = [], Path = [], Context = (\<lambda>k. if k = key then hexID else []), UserID = who \<rparr>"

text \<open>
  The store with a counter of the calls of \<open>UpdateStatus\<close>: every call counts, whether
  it succeeds or not.
\<close>

definition counting :: "(Store \<times> nat) Database" where
  "counting =
     \<lparr> UserService_GetUserByEmail = (\<lambda>(s, n). GetUserByEmail s),
       BookingService_Get = (\<lambda>(s, n). Get s),
       BookingService_UpdateStatus =
         (\<lambda>(s, n) bookingID status.
            case UpdateStatus s bookingID status of (err, s') \<Rightarrow> (err, (s', Suc n))) \<rparr>"

section \<open>Requests that reach a reservation\<close>

text \<open>
  The request \<open>r\<close> is made by the registered user \<open>user\<close> on the reservation
  \<open>booking\<close>: the caller is authenticated and known, the route parameter \<open>key\<close>
  is the identifier \<open>bookingID\<close>, and the database holds \<open>booking\<close> under it. These
  are the checks every transition handler makes before it looks at the role of the caller.
\<close>

definition requestOf ::
  "'db Database \<Rightarrow> Request \<Rightarrow> 'db \<Rightarrow> string \<Rightarrow> User \<Rightarrow> ObjectID \<Rightarrow> Booking \<Rightarrow> bool" where
  "requestOf database r db key user bookingID booking \<longleftrightarrow>
     UserID r \<noteq> [] \<and>
     UserService_GetUserByEmail database db (UserID r) = Inr user \<and>
     ObjectIDFromHex (URLParam r key) = Some bookingID \<and>
     BookingService_Get database db bookingID = Inr (Some booking)"

text \<open>
  The same for \<open>HandleRateBooking\<close>, which takes the identifier of the booking from
  the decoded body \<open>rateReq\<close> of the request.
\<close>

definition rateRequestOf ::
  "(string \<Rightarrow> RateRequest option) \<Rightarrow> 'db Database \<Rightarrow> Request \<Rightarrow> 'db \<Rightarrow> User \<Rightarrow> RateRequest \<Rightarrow> Booking
     \<Rightarrow> bool" where
  "rateRequestOf json_Unmarshal database r db user rateReq booking \<longleftrightarrow>
     UserID r \<noteq> [] \<and>
     UserService_GetUserByEmail database db (UserID r) = Inr user \<and>
     json_Unmarshal (Data r) = Some rateReq \<and>
     (case ObjectIDFromHex (BookingID rateReq) of
        None \<Rightarrow> False
      | Some bookingID \<Rightarrow> BookingService_Get database db bookingID = Inr (Some booking))"

text \<open>
  The errors by which a transition handler refuses a request before it writes: an
  unauthorized caller, an unknown user, a malformed identifier, a booking that is not
  found, a role mismatch, a state mismatch.
\<close>

definition refusal :: "APIError \<Rightarrow> bool" where
  "refusal e \<longleftrightarrow>
     e = ErrUnauthorized \<or> e = ErrUserNotFound \<or> e = ErrInvalidRequestBodyData \<or>
     e = ErrBookingNotFound \<or> RoleError e \<or> StateError e"

text \<open>A store whose only reservation is the second one of the fixture, in a given status.\<close>

definition storeWith :: "BookingStatus \<Rightarrow> Store" where
  "storeWith status =
     \<lparr> users = [bob, alice], bookings = [booking2\<lparr>BookingStatus := status\<rparr>], now = 40 \<rparr>"

section \<open>Reading a booking\<close>

text \<open>
  Claim C10. Reading a single booking performs no caller check: \<open>HandleGetBooking\<close>
  never inspects \<open>r.UserID\<close>. For any database services, any state of the database and
  any request, replacing the caller's identity by any other one, the empty identity of
  an unauthenticated caller included, gives the same result and the same database.
\<close>

theorem HandleGetBooking_ignores_caller:
  "HandleGetBooking database (r\<lparr>UserID := caller\<rparr>) db = HandleGetBooking database (r\<lparr>UserID := caller'\<rparr>) db
   \<and> HandleGetBooking database (r\<lparr>UserID := caller\<rparr>) db = HandleGetBooking database (r\<lparr>UserID := []\<rparr>) db"
proof -
  have param: "URLParam (r\<lparr>UserID := u\<rparr>) key = URLParam r key" for u key
    by (simp add: URLParam_def)
  have "HandleGetBooking database (r\<lparr>UserID := u\<rparr>) db = HandleGetBooking database r db" for u
    unfolding HandleGetBooking_def param ..
  then show ?thesis by simp
qed

section \<open>The transition handlers on a request that reaches a reservation\<close>

text \<open>
  Once the four preliminary checks have passed, each handler is decided by the role of the
  caller, the status of the reservation (not for the return), and the outcome of
  \<open>UpdateStatus\<close>.
\<close>

lemma requestOf_accept:
  assumes "requestOf database r db ''petitionId'' user bookingID booking"
  shows "HandleAcceptPetition database r db =
     (if ToUserID booking \<noteq> User.ID user then (Inl ErrOnlyOwnerCanAccept, db)
      else if BookingStatus booking \<noteq> BookingStatusPending then (Inl ErrCanOnlyAcceptPending, db)
      else (case BookingService_UpdateStatus database db bookingID BookingStatusAccepted of
              (Some err, db') \<Rightarrow> (Inl ErrInternalServerError, db')
            | (None, db') \<Rightarrow> (Inr NilValue, db')))"
  using assms unfolding requestOf_def HandleAcceptPetition_def by simp

lemma requestOf_deny:
  assumes "requestOf database r db ''petitionId'' user bookingID booking"
  shows "HandleDenyPetition database r db =
     (if ToUserID booking \<noteq> User.ID user then (Inl ErrOnlyOwnerCanDeny, db)
      else if BookingStatus booking \<noteq> BookingStatusPending then (Inl ErrCanOnlyDenyPending, db)
      else (case BookingService_UpdateStatus database db bookingID BookingStatusRejected of
              (Some err, db') \<Rightarrow> (Inl ErrInternalServerError, db')
            | (None, db') \<Rightarrow> (Inr NilValue, db')))"
  using assms unfolding requestOf_def HandleDenyPetition_def by simp

lemma requestOf_cancel:
  assumes "requestOf database r db ''petitionId'' user bookingID booking"
  shows "HandleCancelRequest database r db =
     (if FromUserID booking \<noteq> User.ID user then (Inl ErrOnlyRequesterCanCancel, db)
      else if BookingStatus booking \<noteq> BookingStatusPending then (Inl ErrCanOnlyCancelPending, db)
      else (case BookingService_UpdateStatus database db bookingID BookingStatusCancelled of
              (Some err, db') \<Rightarrow> (Inl ErrInternalServerError, db')
            | (None, db') \<Rightarrow> (Inr NilValue, db')))"
  using assms unfolding requestOf_def HandleCancelRequest_def by simp

lemma requestOf_return:
  assumes "requestOf database r db ''bookingId'' user bookingID booking"
  shows "HandleReturnBooking database r db =
     (if ToUserID booking \<noteq> User.ID user then (Inl ErrOnlyOwnerCanReturn, db)
      else (case BookingService_UpdateStatus database db bookingID BookingStatusReturned of
              (Some err, db') \<Rightarrow> (Inl ErrInternalServerError, db')
            | (None, db') \<Rightarrow> (Inr NilValue, db')))"
  using assms unfolding requestOf_def HandleReturnBooking_def by simp

section \<open>Role checks\<close>

text \<open>
  Claim C5. For every reservation and every actor: accepting, denying and marking as
  returned fail with a role error when the actor is not the owner (\<open>ToUserID\<close>) of
  the reservation, and cancelling fails with a role error when the actor is not its
  requester (\<open>FromUserID\<close>). Nothing is assumed about the status of the reservation,
  so this holds in every current status; the database is left as it was.
\<close>

theorem role_mismatch_is_RoleError:
  "(requestOf database r db ''petitionId'' user bookingID booking \<and> ToUserID booking \<noteq> User.ID user \<longrightarrow>
      HandleAcceptPetition database r db = (Inl ErrOnlyOwnerCanAccept, db) \<and>
      HandleDenyPetition database r db = (Inl ErrOnlyOwnerCanDeny, db)) \<and>
   (requestOf database r db ''bookingId'' user bookingID booking \<and> ToUserID booking \<noteq> User.ID user \<longrightarrow>
      HandleReturnBooking database r db = (Inl ErrOnlyOwnerCanReturn, db)) \<and>
   (requestOf database r db ''petitionId'' user bookingID booking \<and> FromUserID booking \<noteq> User.ID user \<longrightarrow>
      HandleCancelRequest database r db = (Inl ErrOnlyRequesterCanCancel, db)) \<and>
   RoleError ErrOnlyOwnerCanAccept \<and> RoleError ErrOnlyOwnerCanDeny \<and>
   RoleError ErrOnlyOwnerCanReturn \<and> RoleError ErrOnlyRequesterCanCancel"
proof -
  have owner: "HandleAcceptPetition database r db = (Inl ErrOnlyOwnerCanAccept, db) \<and>
      HandleDenyPetition database r db = (Inl ErrOnlyOwnerCanDeny, db)"
    if "requestOf database r db ''petitionId'' user bookingID booking"
      and "ToUserID booking \<noteq> User.ID user"
    using requestOf_accept [OF that(1)] requestOf_deny [OF that(1)] that(2) by simp
  have return: "HandleReturnBooking database r db = (Inl ErrOnlyOwnerCanReturn, db)"
    if "requestOf database r db ''bookingId'' user bookingID booking"
      and "ToUserID booking \<noteq> User.ID user"
    using requestOf_return [OF that(1)] that(2) by simp
  have cancel: "HandleCancelRequest database r db = (Inl ErrOnlyRequesterCanCancel, db)"
    if "requestOf database r db ''petitionId'' user bookingID booking"
      and "FromUserID booking \<noteq> User.ID user"
    using requestOf_cancel [OF that(1)] that(2) by simp
  from owner return cancel show ?thesis by simp
qed

text \<open>
  On the fixture: alice, who is the requester, may not accept or deny the Accepted
  reservation nor mark the Pending one as returned; bob, who is the owner, may not cancel.
\<close>

theorem role_mismatch_is_RoleError_witness:
  "HandleAcceptPetition memory (request ''alice@emprius.cat'' ''petitionId'' ''0000000000000000000000a1'') store1
     = (Inl ErrOnlyOwnerCanAccept, store1) \<and>
   HandleDenyPetition memory (request ''alice@emprius.cat'' ''petitionId'' ''0000000000000000000000a1'') store1
     = (Inl ErrOnlyOwnerCanDeny, store1) \<and>
   HandleReturnBooking memory (request ''alice@emprius.cat'' ''bookingId'' ''0000000000000000000000a2'') store1
     = (Inl ErrOnlyOwnerCanReturn, store1) \<and>
   HandleCancelRequest memory (request ''bob@emprius.cat'' ''petitionId'' ''0000000000000000000000a1'') store1
     = (Inl ErrOnlyRequesterCanCancel, store1)"
proof -
  have a1: "requestOf memory (request ''alice@emprius.cat'' ''petitionId'' ''0000000000000000000000a1'') store1
      ''petitionId'' alice [0, 0, 0, 0, 0, 0, 0, 0, 0, 0, 0, 161] booking1"
    by code_simp
  have a2: "requestOf memory (request ''alice@emprius.cat'' ''bookingId'' ''0000000000000000000000a2'') store1
      ''bookingId'' alice [0, 0, 0, 0, 0, 0, 0, 0, 0, 0, 0, 162] booking2"
    by code_simp
  have b1: "requestOf memory (request ''bob@emprius.cat'' ''petitionId'' ''0000000000000000000000a1'') store1
      ''petitionId'' bob [0, 0, 0, 0, 0, 0, 0, 0, 0, 0, 0, 161] booking1"
    by code_simp
  have n1: "ToUserID booking1 \<noteq> User.ID alice" "ToUserID booking2 \<noteq> User.ID alice"
    "FromUserID booking1 \<noteq> User.ID bob"
    by (simp_all add: booking1_def booking2_def alice_def bob_def)
  show ?thesis
    using role_mismatch_is_RoleError [of memory "request ''alice@emprius.cat'' ''petitionId'' ''0000000000000000000000a1''" store1 alice "[0, 0, 0, 0, 0, 0, 0, 0, 0, 0, 0, 161]" booking1]
      role_mismatch_is_RoleError [of memory "request ''alice@emprius.cat'' ''bookingId'' ''0000000000000000000000a2''" store1 alice "[0, 0, 0, 0, 0, 0, 0, 0, 0, 0, 0, 162]" booking2]
      role_mismatch_is_RoleError [of memory "request ''bob@emprius.cat'' ''petitionId'' ''0000000000000000000000a1''" store1 bob "[0, 0, 0, 0, 0, 0, 0, 0, 0, 0, 0, 161]" booking1]
      a1 a2 b1 n1
    by blast
qed

end
